theory Spec2Isabelle
  imports Main
begin

section \<open>Python text primitives used by the authentication core\<close>

text \<open>
  A Python \<open>str\<close> is modelled as a list of 8-bit characters read as Latin-1 code
  points (the range in which Starlette hands over header values). The helpers below are
  the built-ins the repository calls: \<open>str.split()\<close>, \<open>str.split(":", 1)\<close>,
  \<open>str.lower()\<close>, \<open>int(str)\<close> and \<open>str(int)\<close>.
\<close>

definition is_space :: "char \<Rightarrow> bool" where
  "is_space c =
     (let n = (of_char c :: nat)
      in (9 \<le> n \<and> n \<le> 13) \<or> (28 \<le> n \<and> n \<le> 32) \<or> n = 133 \<or> n = 160)"

definition is_digit :: "char \<Rightarrow> bool" where
  "is_digit c = (let n = (of_char c :: nat) in 48 \<le> n \<and> n \<le> 57)"

definition is_upper :: "char \<Rightarrow> bool" where
  "is_upper c =
     (let n = (of_char c :: nat)
      in (65 \<le> n \<and> n \<le> 90) \<or> (192 \<le> n \<and> n \<le> 222 \<and> n \<noteq> 215))"

definition lower_char :: "char \<Rightarrow> char" where
  "lower_char c = (if is_upper c then char_of ((of_char c :: nat) + 32) else c)"

definition py_lower :: "string \<Rightarrow> string" where
  "py_lower s = map lower_char s"

text \<open>\<open>s.split()\<close>: the maximal runs of non-whitespace characters, in order.\<close>

fun split_ws :: "string \<Rightarrow> string \<Rightarrow> string list" where
  "split_ws cur [] = (if cur = [] then [] else [rev cur])"
| "split_ws cur (c # cs) =
     (if is_space c
      then (if cur = [] then split_ws [] cs else rev cur # split_ws [] cs)
      else split_ws (c # cur) cs)"

definition py_split :: "string \<Rightarrow> string list" where
  "py_split s = split_ws [] s"

text \<open>\<open>s.split(sep, 1)\<close> for a one-character separator: cut at the first occurrence.\<close>

definition py_split1 :: "char \<Rightarrow> string \<Rightarrow> string list" where
  "py_split1 sep s =
     (if sep \<in> set s
      then [takeWhile (\<lambda>c. c \<noteq> sep) s, tl (dropWhile (\<lambda>c. c \<noteq> sep) s)]
      else [s])"

definition py_strip :: "string \<Rightarrow> string" where
  "py_strip s = rev (dropWhile is_space (rev (dropWhile is_space s)))"

text \<open>
  \<open>int(s)\<close> in base 10: surrounding whitespace is dropped, one sign is allowed, then
  decimal digits with single underscores between digits. CPython refuses more than
  4300 digits (its default \<open>max_str_digits\<close>).
\<close>

fun digits_ok :: "bool \<Rightarrow> string \<Rightarrow> bool" where
  "digits_ok prev [] = prev"
| "digits_ok prev (c # cs) =
     (if is_digit c then digits_ok True cs
      else if c = CHR ''_'' \<and> prev then digits_ok False cs
      else False)"

definition digits_value :: "string \<Rightarrow> nat" where
  "digits_value ds = foldl (\<lambda>acc c. 10 * acc + ((of_char c :: nat) - 48)) 0 ds"

definition max_str_digits :: nat where
  "max_str_digits = 4300"

datatype exn = ValueError | TypeError | AttributeError | LibraryError

definition int_of_str :: "string \<Rightarrow> exn + int" where
  "int_of_str s =
     (let t = py_strip s;
          neg = (t \<noteq> [] \<and> hd t = CHR ''-'');
          r = (if t \<noteq> [] \<and> (hd t = CHR ''-'' \<or> hd t = CHR ''+'') then tl t else t);
          ds = filter is_digit r
      in if \<not> digits_ok False r then Inl ValueError
         else if max_str_digits < length ds then Inl ValueError
         else Inr (if neg then - int (digits_value ds) else int (digits_value ds)))"

fun str_of_nat :: "nat \<Rightarrow> string" where
  "str_of_nat n =
     (if n < 10 then [char_of (48 + n)]
      else str_of_nat (n div 10) @ [char_of (48 + n mod 10)])"

definition str_of_int :: "int \<Rightarrow> string" where
  "str_of_int i = (if i < 0 then CHR ''-'' # str_of_nat (nat (- i)) else str_of_nat (nat i))"

section \<open>Claims, dictionaries and the object store\<close>

text \<open>
  Claim values are the scalars the repository and its token library exchange:
  \<open>None\<close>, booleans, integers, strings and \<open>datetime\<close> instants (microseconds since
  the epoch). Floats and nested containers are outside the model. A \<open>dict\<close> is an
  association list in insertion order; the first binding of a key is the live one.
\<close>

datatype jval = JNull | JBool bool | JInt int | JStr string | JDatetime int

type_synonym claims = "(string \<times> jval) list"

text \<open>\<open>d.get(k)\<close>: the value, or \<open>None\<close> when the key is missing.\<close>

definition dict_get :: "claims \<Rightarrow> string \<Rightarrow> jval" where
  "dict_get d k = (case map_of d k of None \<Rightarrow> JNull | Some v \<Rightarrow> v)"

text \<open>\<open>d.get(k, default)\<close>.\<close>

definition dict_get_default :: "claims \<Rightarrow> string \<Rightarrow> jval \<Rightarrow> jval" where
  "dict_get_default d k dflt = (case map_of d k of None \<Rightarrow> dflt | Some v \<Rightarrow> v)"

text \<open>\<open>d[k] = v\<close>: replace in place, or append a new key.\<close>

fun dict_set :: "claims \<Rightarrow> string \<Rightarrow> jval \<Rightarrow> claims" where
  "dict_set [] k v = [(k, v)]"
| "dict_set (p # ps) k v = (if fst p = k then (k, v) # ps else p # dict_set ps k v)"




section \<open>Configuration, libraries and the principal\<close>

text \<open>\<open>app/core/config.py\<close>: the fields of \<open>Settings\<close> the authentication core reads.\<close>

record settings =
  PROJECT_NAME :: string
  VERSION :: string
  AUTH_TYPE :: string
  DB_TYPE :: string
  SECRET_KEY :: string
  ALGORITHM :: string
  ACCESS_TOKEN_EXPIRE_MINUTES :: int
  REFRESH_TOKEN_EXPIRE_DAYS :: int
  SESSION_SECRET_KEY :: "string option"
  SESSION_EXPIRE_MINUTES :: int

text \<open>
  The third-party calls are parameters of the model. The clock is an explicit argument
  (microseconds since the epoch).
  \<^item> \<open>jwt_encode payload key algorithm\<close> is \<open>jwt.encode\<close>;
  \<^item> \<open>jwt_decode token key algorithms now\<close> is \<open>jwt.decode\<close>; its outcome is the payload,
    \<open>ExpiredSignatureError\<close>, any other \<open>InvalidTokenError\<close>, or an exception outside
    that hierarchy (\<open>JwtOtherError\<close>, which no \<open>except\<close> clause catches);
  \<^item> \<open>ts_sign key now value\<close> is \<open>TimestampSigner(key).sign(value).decode()\<close>;
  \<^item> \<open>ts_unsign key now token max_age\<close> is
    \<open>TimestampSigner(key).unsign(token, max_age=max_age).decode()\<close>; its outcome is the
    text, \<open>SignatureExpired\<close>, any other \<open>BadSignature\<close>, or the \<open>UnicodeDecodeError\<close>
    of \<open>decode()\<close>;
  \<^item> \<open>datetime_str\<close> is \<open>str\<close> on a \<open>datetime\<close>.
\<close>

datatype jwt_outcome = Decoded claims | ExpiredSignatureError | InvalidTokenError | JwtOtherError

datatype unsign_outcome = Unsigned string | SignatureExpired | BadSignature | UnicodeDecodeError

record libs =
  jwt_encode :: "claims \<Rightarrow> string \<Rightarrow> string \<Rightarrow> exn + string"
  jwt_decode :: "string \<Rightarrow> string \<Rightarrow> string list \<Rightarrow> int \<Rightarrow> jwt_outcome"
  ts_sign :: "string \<Rightarrow> int \<Rightarrow> string \<Rightarrow> string"
  ts_unsign :: "string \<Rightarrow> int \<Rightarrow> string \<Rightarrow> int \<Rightarrow> unsign_outcome"
  datetime_str :: "int \<Rightarrow> string"

text \<open>
  Modelled from the spec: \<open>app/models/user.py\<close> is not among the sources. The principal
  has a numeric id, an email, an active flag and a privilege flag; the other fields are
  those of \<open>app/schemas/user\<close>.
\<close>

record user =
  user_id :: int
  email :: string
  full_name :: "string option"
  hashed_password :: string
  is_active :: bool
  is_superuser :: bool

text \<open>\<open>UserRepository(db).get_by_id\<close>: the table read through its primary key.\<close>

type_synonym db = "int \<Rightarrow> user option"

text \<open>
  What a call can end with besides its value: an \<open>HTTPException\<close> (status code, detail,
  headers; no headers is the empty list) or any other exception, which nothing in the
  core catches.
\<close>

datatype failure = HTTPException nat string "(string \<times> string) list" | Uncaught exn

definition bearer_hint :: "(string \<times> string) list" where
  "bearer_hint = [(''WWW-Authenticate'', ''Bearer'')]"

text \<open>\<open>int(v)\<close> and \<open>format(v)\<close> on a claim value.\<close>

fun py_int :: "jval \<Rightarrow> exn + int" where
  "py_int JNull = Inl TypeError"
| "py_int (JBool b) = Inr (if b then 1 else 0)"
| "py_int (JInt n) = Inr n"
| "py_int (JStr s) = int_of_str s"
| "py_int (JDatetime t) = Inl TypeError"

fun py_format :: "libs \<Rightarrow> jval \<Rightarrow> string" where
  "py_format L JNull = ''None''"
| "py_format L (JBool b) = (if b then ''True'' else ''False'')"
| "py_format L (JInt n) = str_of_int n"
| "py_format L (JStr s) = s"
| "py_format L (JDatetime t) = datetime_str L t"

section \<open>The bearer provider (\<open>app/auth/providers/jwt_provider.py\<close>)\<close>






text \<open>
  \<open>verify_token\<close> is typed \<open>Dict | None\<close>; the result type keeps the \<open>None\<close>. The
  \<open>except\<close> clauses are tried in the source's order.
\<close>

definition jwt_verify_token :: "libs \<Rightarrow> settings \<Rightarrow> int \<Rightarrow> string \<Rightarrow> failure + claims option" where
  "jwt_verify_token L cfg now token =
     (case jwt_decode L token (SECRET_KEY cfg) [ALGORITHM cfg] now of
        Decoded payload \<Rightarrow> Inr (Some payload)
      | ExpiredSignatureError \<Rightarrow> Inl (HTTPException 401 ''Token has expired'' bearer_hint)
      | InvalidTokenError \<Rightarrow> Inl (HTTPException 401 ''Invalid token'' bearer_hint)
      | JwtOtherError \<Rightarrow> Inl (Uncaught LibraryError))"

definition jwt_get_current_user :: "libs \<Rightarrow> settings \<Rightarrow> int \<Rightarrow> string \<Rightarrow> failure + claims" where
  "jwt_get_current_user L cfg now token =
     (case jwt_verify_token L cfg now token of
        Inl f \<Rightarrow> Inl f
      | Inr None \<Rightarrow> Inl (HTTPException 401 ''Could not validate credentials'' bearer_hint)
      | Inr (Some payload) \<Rightarrow> Inr payload)"

section \<open>The session provider (\<open>app/auth/providers/login_password_provider.py\<close>)\<close>

text \<open>
  An instance holds the signer's key and \<open>max_age\<close> in seconds. The constructor refuses
  a missing or empty \<open>SESSION_SECRET_KEY\<close>.
\<close>

datatype provider = JWTProvider | LoginPasswordProvider string int

definition LoginPasswordProvider_init :: "settings \<Rightarrow> exn + provider" where
  "LoginPasswordProvider_init cfg =
     (case SESSION_SECRET_KEY cfg of
        None \<Rightarrow> Inl ValueError
      | Some k \<Rightarrow> (if k = [] then Inl ValueError
                   else Inr (LoginPasswordProvider k (SESSION_EXPIRE_MINUTES cfg * 60))))"

text \<open>
  \<open>session_id\<close> is the value of \<open>secrets.token_urlsafe(32)\<close>, an input of the model.
  \<open>expires_delta\<close> is accepted and ignored, as in the source.
\<close>

definition session_create_access_token ::
  "libs \<Rightarrow> string \<Rightarrow> int \<Rightarrow> string \<Rightarrow> claims \<Rightarrow> int option \<Rightarrow> string" where
  "session_create_access_token L key now session_id data expires_delta =
     ts_sign L key now
       (session_id @ '':'' @ py_format L (dict_get_default data ''sub'' (JStr [])))"

definition session_create_session :: "libs \<Rightarrow> string \<Rightarrow> int \<Rightarrow> string \<Rightarrow> int \<Rightarrow> string" where
  "session_create_session L key now session_id uid =
     session_create_access_token L key now session_id [(''sub'', JStr (str_of_int uid))] None"

definition session_verify_token ::
  "libs \<Rightarrow> string \<Rightarrow> int \<Rightarrow> int \<Rightarrow> string \<Rightarrow> failure + claims option" where
  "session_verify_token L key max_age now token =
     (case ts_unsign L key now token max_age of
        Unsigned unsigned \<Rightarrow>
          (case py_split1 (CHR '':'') unsigned of
             [session_id, uid] \<Rightarrow> Inr (Some [(''sub'', JStr uid), (''session_id'', JStr session_id)])
           | _ \<Rightarrow> Inl (HTTPException 401 ''Invalid session'' []))
      | SignatureExpired \<Rightarrow> Inl (HTTPException 401 ''Session has expired'' [])
      | BadSignature \<Rightarrow> Inl (HTTPException 401 ''Invalid session'' [])
      | UnicodeDecodeError \<Rightarrow> Inl (HTTPException 401 ''Invalid session'' []))"

definition session_get_current_user ::
  "libs \<Rightarrow> string \<Rightarrow> int \<Rightarrow> int \<Rightarrow> string \<Rightarrow> failure + claims" where
  "session_get_current_user L key max_age now token =
     (case session_verify_token L key max_age now token of
        Inl f \<Rightarrow> Inl f
      | Inr None \<Rightarrow> Inl (HTTPException 401 ''Could not validate credentials'' [])
      | Inr (Some payload) \<Rightarrow> Inr payload)"

section \<open>Selection and resolution (\<open>app/dependencies.py\<close>)\<close>

definition get_auth_provider :: "settings \<Rightarrow> exn + provider" where
  "get_auth_provider cfg =
     (if AUTH_TYPE cfg = ''jwt'' then Inr JWTProvider
      else if AUTH_TYPE cfg = ''login_password'' then LoginPasswordProvider_init cfg
      else Inl ValueError)"

text \<open>The methods of \<open>BaseAuthProvider\<close>, dispatched on the instance.\<close>

fun verify_token :: "libs \<Rightarrow> settings \<Rightarrow> int \<Rightarrow> provider \<Rightarrow> string \<Rightarrow> failure + claims option" where
  "verify_token L cfg now JWTProvider token = jwt_verify_token L cfg now token"
| "verify_token L cfg now (LoginPasswordProvider key max_age) token =
     session_verify_token L key max_age now token"

fun provider_get_current_user ::
  "libs \<Rightarrow> settings \<Rightarrow> int \<Rightarrow> provider \<Rightarrow> string \<Rightarrow> failure + claims" where
  "provider_get_current_user L cfg now JWTProvider token = jwt_get_current_user L cfg now token"
| "provider_get_current_user L cfg now (LoginPasswordProvider key max_age) token =
     session_get_current_user L key max_age now token"


text \<open>
  \<open>get_current_user\<close>. \<open>authorization\<close> is the header value or \<open>None\<close>. The tuple
  assignment \<open>scheme, token = authorization.split()\<close> raises \<open>ValueError\<close> unless there
  are exactly two fields. \<open>payload.get\<close> on \<open>None\<close> would raise \<open>AttributeError\<close>, and
  \<open>int(user_id)\<close> is not guarded.
\<close>

definition user_from_payload :: "db \<Rightarrow> claims \<Rightarrow> failure + user" where
  "user_from_payload repo payload =
     (let uid = dict_get payload ''sub''
      in if uid = JNull then Inl (HTTPException 401 ''Invalid token payload'' bearer_hint)
         else (case py_int uid of
                 Inl e \<Rightarrow> Inl (Uncaught e)
               | Inr n \<Rightarrow>
                   (case repo n of
                      None \<Rightarrow> Inl (HTTPException 401 ''User not found'' bearer_hint)
                    | Some u \<Rightarrow> Inr u)))"

definition get_current_user ::
  "libs \<Rightarrow> settings \<Rightarrow> int \<Rightarrow> db \<Rightarrow> string option \<Rightarrow> provider \<Rightarrow> failure + user" where
  "get_current_user L cfg now repo authorization auth_provider =
     (case authorization of
        None \<Rightarrow> Inl (HTTPException 401 ''Not authenticated'' bearer_hint)
      | Some a \<Rightarrow>
          (if a = [] then Inl (HTTPException 401 ''Not authenticated'' bearer_hint)
           else (case py_split a of
                   [scheme, token] \<Rightarrow>
                     (if py_lower scheme \<noteq> ''bearer''
                      then Inl (HTTPException 401 ''Invalid authentication scheme'' bearer_hint)
                      else (case verify_token L cfg now auth_provider token of
                              Inl f \<Rightarrow> Inl f
                            | Inr None \<Rightarrow> Inl (Uncaught AttributeError)
                            | Inr (Some payload) \<Rightarrow> user_from_payload repo payload))
                 | _ \<Rightarrow> Inl (HTTPException 401 ''Invalid authorization header'' bearer_hint))))"

definition get_current_active_user :: "failure + user \<Rightarrow> failure + user" where
  "get_current_active_user current_user =
     (case current_user of
        Inl f \<Rightarrow> Inl f
      | Inr u \<Rightarrow> (if \<not> is_active u then Inl (HTTPException 403 ''Inactive user'' []) else Inr u))"

section \<open>The application life cycle (\<open>app/main.py\<close>) and the HTTP boundary\<close>

text \<open>
  \<open>main.py\<close> builds the application at import time and, in \<open>lifespan\<close>, writes three log
  lines at startup. Neither constructs a provider or calls \<open>get_auth_provider\<close>: the
  result is the startup log, and nothing here raises.
\<close>

definition lifespan_startup :: "settings \<Rightarrow> exn + string list" where
  "lifespan_startup cfg =
     Inr [''Starting '' @ PROJECT_NAME cfg @ '' v'' @ VERSION cfg,
          ''Database: '' @ DB_TYPE cfg,
          ''Authentication: '' @ AUTH_TYPE cfg]"

text \<open>
  \<open>auth_provider: BaseAuthProvider = Depends(get_auth_provider)\<close>: the framework calls
  \<open>get_auth_provider\<close> while it resolves the dependencies of a request, before the body
  of \<open>get_current_user\<close> runs; an exception raised there ends that request.
\<close>

definition resolve_current_user ::
  "libs \<Rightarrow> settings \<Rightarrow> int \<Rightarrow> db \<Rightarrow> string option \<Rightarrow> failure + user" where
  "resolve_current_user L cfg now repo authorization =
     (case get_auth_provider cfg of
        Inl e \<Rightarrow> Inl (Uncaught e)
      | Inr auth_provider \<Rightarrow> get_current_user L cfg now repo authorization auth_provider)"

definition resolve_current_active_user ::
  "libs \<Rightarrow> settings \<Rightarrow> int \<Rightarrow> db \<Rightarrow> string option \<Rightarrow> failure + user" where
  "resolve_current_active_user L cfg now repo authorization =
     get_current_active_user (resolve_current_user L cfg now repo authorization)"

text \<open>
  The response of a failed request: an \<open>HTTPException\<close> keeps its status and headers;
  any other exception reaches \<open>general_exception_handler\<close> (\<open>app/core/handlers.py\<close>),
  which answers 500 without headers.
\<close>

fun response_status :: "failure \<Rightarrow> nat" where
  "response_status (HTTPException code detail hdrs) = code"
| "response_status (Uncaught e) = 500"

fun response_headers :: "failure \<Rightarrow> (string \<times> string) list" where
  "response_headers (HTTPException code detail hdrs) = hdrs"
| "response_headers (Uncaught e) = []"

text \<open>The caller-visible outcome classes.\<close>

datatype outcome = Authorized | Unauthenticated | Forbidden | ServerError

definition outcome_class :: "failure + user \<Rightarrow> outcome" where
  "outcome_class r =
     (case r of
        Inr u \<Rightarrow> Authorized
      | Inl f \<Rightarrow> (if response_status f = 401 then Unauthenticated
                  else if response_status f = 403 then Forbidden
                  else ServerError))"

text \<open>The alphabet of \<open>secrets.token_urlsafe\<close>: letters, digits, \<open>-\<close> and \<open>_\<close>.\<close>

definition urlsafe_char :: "char \<Rightarrow> bool" where
  "urlsafe_char c =
     (let n = (of_char c :: nat)
      in (48 \<le> n \<and> n \<le> 57) \<or> (65 \<le> n \<and> n \<le> 90) \<or> (97 \<le> n \<and> n \<le> 122)
         \<or> c = CHR ''-'' \<or> c = CHR ''_'')"



section \<open>Sample configuration, libraries and table\<close>

text \<open>
  The defaults of \<open>config.py\<close>, a table with one active and one inactive account, and
  stand-ins for the libraries that recognise a handful of tokens. They serve to run the
  model on concrete requests.
\<close>

definition sample_settings :: settings where
  "sample_settings =
     \<lparr>PROJECT_NAME = ''FastAPI Boilerplate'', VERSION = ''1.0.0'', AUTH_TYPE = ''jwt'',
      DB_TYPE = ''postgresql'', SECRET_KEY = ''secret'', ALGORITHM = ''HS256'',
      ACCESS_TOKEN_EXPIRE_MINUTES = 30, REFRESH_TOKEN_EXPIRE_DAYS = 7,
      SESSION_SECRET_KEY = None, SESSION_EXPIRE_MINUTES = 60\<rparr>"

definition sample_libs :: libs where
  "sample_libs =
     \<lparr>jwt_encode = (\<lambda>c k a. Inr ''good''),
      jwt_decode = (\<lambda>t k algs now.
         if t = ''good'' then Decoded [(''sub'', JStr ''42''), (''exp'', JInt 1800)]
         else if t = ''sub7'' then Decoded [(''sub'', JStr ''7''), (''exp'', JInt 1800)]
         else if t = ''sub8'' then Decoded [(''sub'', JStr ''8''), (''exp'', JInt 1800)]
         else if t = ''subabc'' then Decoded [(''sub'', JStr ''abc''), (''exp'', JInt 1800)]
         else if t = ''nosub'' then Decoded [(''exp'', JInt 1800)]
         else if t = ''old'' then ExpiredSignatureError
         else InvalidTokenError),
      ts_sign = (\<lambda>k now v. v),
      ts_unsign = (\<lambda>k now t max_age.
         if t = ''forged'' then BadSignature
         else if t = ''old'' then SignatureExpired
         else Unsigned t),
      datetime_str = (\<lambda>t. [])\<rparr>"

definition sample_user :: "int \<Rightarrow> bool \<Rightarrow> user" where
  "sample_user n active =
     \<lparr>user_id = n, email = ''user@example.com'', full_name = None,
      hashed_password = ''x'', is_active = active, is_superuser = False\<rparr>"

definition sample_db :: db where
  "sample_db n =
     (if n = 42 then Some (sample_user 42 True)
      else if n = 7 then Some (sample_user 7 False)
      else None)"


section \<open>Auxiliary facts about the model\<close>

lemma map_of_dict_set: "map_of (dict_set d k v) = (map_of d)(k \<mapsto> v)"
  by (induction d) (auto simp: fun_eq_iff)

lemma dict_get_dict_set_other: "k' \<noteq> k \<Longrightarrow> dict_get (dict_set d k v) k' = dict_get d k'"
  by (simp add: dict_get_def map_of_dict_set)


lemma py_split1_first: "sep \<notin> set a \<Longrightarrow> py_split1 sep (a @ sep # b) = [a, b]"
  by (induction a) (auto simp: py_split1_def)

lemma py_split1_length: "length (py_split1 sep s) = (if sep \<in> set s then 2 else 1)"
  by (simp add: py_split1_def)

lemma urlsafe_no_colon: "list_all urlsafe_char sid \<Longrightarrow> CHR '':'' \<notin> set sid"
  by (auto simp: list_all_iff urlsafe_char_def)

lemma py_split_Nil: "py_split [] = []"
  by (simp add: py_split_def)

lemma jwt_verify_token_cases:
  "jwt_verify_token L cfg now token = Inl f \<Longrightarrow>
     f = HTTPException 401 ''Token has expired'' bearer_hint \<or>
     f = HTTPException 401 ''Invalid token'' bearer_hint \<or> f = Uncaught LibraryError"
  by (auto simp: jwt_verify_token_def split: jwt_outcome.splits)

lemma session_verify_token_cases:
  "session_verify_token L key max_age now token = Inl f \<Longrightarrow>
     f = HTTPException 401 ''Session has expired'' [] \<or> f = HTTPException 401 ''Invalid session'' []"
  by (auto simp: session_verify_token_def split: unsign_outcome.splits list.splits)

lemma jwt_verify_token_not_None: "jwt_verify_token L cfg now token \<noteq> Inr None"
  by (simp add: jwt_verify_token_def split: jwt_outcome.splits)

lemma session_verify_token_not_None: "session_verify_token L key max_age now token \<noteq> Inr None"
  by (simp add: session_verify_token_def split: unsign_outcome.splits list.splits)

lemma verify_token_not_None: "verify_token L cfg now p token \<noteq> Inr None"
  by (cases p) (simp_all add: jwt_verify_token_not_None session_verify_token_not_None)

lemma verify_token_failure:
  "verify_token L cfg now p token = Inl f \<Longrightarrow> response_status f = 401 \<or> f = Uncaught LibraryError"
  by (cases p) (auto dest: jwt_verify_token_cases session_verify_token_cases)

lemma int_of_str_failure: "int_of_str s = Inl e \<Longrightarrow> e = ValueError"
  by (auto simp: int_of_str_def Let_def split: if_splits)

lemma py_int_failure: "py_int v = Inl e \<Longrightarrow> e = ValueError \<or> e = TypeError"
  by (cases v) (auto dest: int_of_str_failure split: if_splits)

lemma user_from_payload_failure:
  "user_from_payload repo payload = Inl f \<Longrightarrow>
     response_status f = 401 \<or> f = Uncaught ValueError \<or> f = Uncaught TypeError"
  by (auto simp: user_from_payload_def Let_def dest!: py_int_failure split: if_splits sum.splits option.splits)

lemma get_current_user_verified:
  assumes "py_split a = [scheme, token]" and "py_lower scheme = ''bearer''"
    and "verify_token L cfg now p token = Inr (Some payload)"
  shows "get_current_user L cfg now repo (Some a) p = user_from_payload repo payload"
proof -
  from assms(1) have "a \<noteq> []" by (auto simp: py_split_Nil)
  with assms show ?thesis by (simp add: get_current_user_def)
qed

lemma get_current_user_rejected:
  assumes "py_split a = [scheme, token]" and "py_lower scheme = ''bearer''"
    and "verify_token L cfg now p token = Inl f"
  shows "get_current_user L cfg now repo (Some a) p = Inl f"
proof -
  from assms(1) have "a \<noteq> []" by (auto simp: py_split_Nil)
  with assms show ?thesis by (simp add: get_current_user_def)
qed

lemma get_current_user_failure:
  assumes "get_current_user L cfg now repo authorization p = Inl f"
  shows "response_status f = 401 \<or> f = Uncaught LibraryError
         \<or> f = Uncaught ValueError \<or> f = Uncaught TypeError"
proof (cases authorization)
  case None
  with assms show ?thesis by (auto simp: get_current_user_def)
next
  case (Some a)
  show ?thesis
  proof (cases "a = []")
    case True
    with assms Some show ?thesis by (auto simp: get_current_user_def)
  next
    case False
    show ?thesis
    proof (cases "\<exists>scheme token. py_split a = [scheme, token]")
      case False
      with assms Some \<open>a \<noteq> []\<close> show ?thesis
        by (auto simp: get_current_user_def split: list.splits)
    next
      case True
      then obtain scheme token where sp: "py_split a = [scheme, token]" by blast
      show ?thesis
      proof (cases "py_lower scheme = ''bearer''")
        case False
        with assms Some \<open>a \<noteq> []\<close> sp show ?thesis by (auto simp: get_current_user_def)
      next
        case True
        show ?thesis
        proof (cases "verify_token L cfg now p token")
          case (Inl g)
          with assms Some sp True have "f = g"
            by (simp add: get_current_user_rejected)
          with Inl show ?thesis by (auto dest: verify_token_failure)
        next
          case (Inr r)
          with verify_token_not_None [of L cfg now p token]
          obtain payload where "r = Some payload" by (cases r) auto
          with Inr assms Some sp True have "user_from_payload repo payload = Inl f"
            by (simp add: get_current_user_verified)
          then show ?thesis by (auto dest: user_from_payload_failure)
        qed
      qed
    qed
  qed
qed

lemma sample_split_subabc: "py_split ''Bearer subabc'' = [''Bearer'', ''subabc'']"
  by code_simp

lemma sample_lower_Bearer: "py_lower ''Bearer'' = ''bearer''"
  by code_simp

section \<open>The claims\<close>

text \<open>
  C1 (the spec: a subject that is absent or not numeric ends in a 401-class rejection).
  The code guards only the absent subject. Property proved here, on the code: when the
  verified claims carry a string subject that \<open>int\<close> refuses, \<open>get_current_user\<close> ends
  with the uncaught \<open>ValueError\<close> of \<open>int(user_id)\<close>, which the HTTP boundary answers
  with status 500, not with a 401 rejection.
\<close>

theorem get_current_user_nonnumeric_subject:
  assumes "py_split a = [scheme, token]" and "py_lower scheme = ''bearer''"
    and "verify_token L cfg now p token = Inr (Some payload)"
    and "dict_get payload ''sub'' = JStr s"
    and "int_of_str s = Inl ValueError"
  shows "get_current_user L cfg now repo (Some a) p = Inl (Uncaught ValueError)
         \<and> outcome_class (get_current_user L cfg now repo (Some a) p) = ServerError"
proof -
  have "user_from_payload repo payload = Inl (Uncaught ValueError)"
    using assms(4,5) by (simp add: user_from_payload_def)
  with assms(1-3) show ?thesis
    by (simp add: get_current_user_verified outcome_class_def)
qed

theorem get_current_user_nonnumeric_subject_witness:
  "py_split ''Bearer subabc'' = [''Bearer'', ''subabc'']
   \<and> py_lower ''Bearer'' = ''bearer''
   \<and> verify_token sample_libs sample_settings 0 JWTProvider ''subabc''
       = Inr (Some [(''sub'', JStr ''abc''), (''exp'', JInt 1800)])
   \<and> dict_get [(''sub'', JStr ''abc''), (''exp'', JInt 1800)] ''sub'' = JStr ''abc''
   \<and> int_of_str ''abc'' = Inl ValueError
   \<and> get_current_user sample_libs sample_settings 0 sample_db (Some ''Bearer subabc'') JWTProvider
       = Inl (Uncaught ValueError)"
proof -
  have v: "verify_token sample_libs sample_settings 0 JWTProvider ''subabc''
       = Inr (Some [(''sub'', JStr ''abc''), (''exp'', JInt 1800)])"
    by (simp add: jwt_verify_token_def sample_libs_def)
  have d: "dict_get [(''sub'', JStr ''abc''), (''exp'', JInt 1800)] ''sub'' = JStr ''abc''"
    by (simp add: dict_get_def)
  have i: "int_of_str ''abc'' = Inl ValueError" by code_simp
  from get_current_user_nonnumeric_subject [OF sample_split_subabc sample_lower_Bearer v d i]
  show ?thesis using v d i sample_split_subabc sample_lower_Bearer by simp
qed

text \<open>
  C2 (the spec: the selector is evaluated once at process start, and an unrecognized
  provider kind is a fatal startup error). Startup does not call the selector; the
  framework calls it for each request that depends on it. At the sample settings with
  \<open>AUTH_TYPE = "oauth2"\<close>, startup completes with its three log lines, and requests fail
  one by one with the uncaught \<open>ValueError\<close>.
\<close>

theorem unrecognized_kind_startup_counterexample:
  "AUTH_TYPE (sample_settings\<lparr>AUTH_TYPE := ''oauth2''\<rparr>) \<noteq> ''jwt''
   \<and> AUTH_TYPE (sample_settings\<lparr>AUTH_TYPE := ''oauth2''\<rparr>) \<noteq> ''login_password''
   \<and> lifespan_startup (sample_settings\<lparr>AUTH_TYPE := ''oauth2''\<rparr>)
        = Inr [''Starting FastAPI Boilerplate v1.0.0'', ''Database: postgresql'',
               ''Authentication: oauth2'']
   \<and> resolve_current_user sample_libs (sample_settings\<lparr>AUTH_TYPE := ''oauth2''\<rparr>) 0 sample_db
        (Some ''Bearer good'') = Inl (Uncaught ValueError)
   \<and> resolve_current_user sample_libs (sample_settings\<lparr>AUTH_TYPE := ''oauth2''\<rparr>) 1000000 sample_db
        None = Inl (Uncaught ValueError)"
  by (simp add: lifespan_startup_def resolve_current_user_def get_auth_provider_def
        sample_settings_def)

text \<open>
  C2, amended: \<open>get_auth_provider\<close> is a function of the settings \<open>AUTH_TYPE\<close>,
  \<open>SESSION_SECRET_KEY\<close> and \<open>SESSION_EXPIRE_MINUTES\<close>, evaluated for each request that
  depends on it. It maps \<open>"jwt"\<close> to the bearer provider and \<open>"login_password"\<close> to what
  the session provider's constructor returns, never to the bearer provider. For any
  other value it raises \<open>ValueError\<close>: startup still completes, and every request that
  resolves the provider ends with that uncaught error (a server error), not with a 401
  or 403 rejection.
\<close>

theorem get_auth_provider_selection:
  "(AUTH_TYPE cfg = ''jwt'' \<longrightarrow> get_auth_provider cfg = Inr JWTProvider)
   \<and> (AUTH_TYPE cfg = ''login_password''
        \<longrightarrow> get_auth_provider cfg = LoginPasswordProvider_init cfg
            \<and> get_auth_provider cfg \<noteq> Inr JWTProvider)
   \<and> (AUTH_TYPE cfg \<noteq> ''jwt'' \<and> AUTH_TYPE cfg \<noteq> ''login_password''
        \<longrightarrow> get_auth_provider cfg = Inl ValueError
            \<and> (\<exists>log. lifespan_startup cfg = Inr log)
            \<and> resolve_current_user L cfg now repo authorization = Inl (Uncaught ValueError)
            \<and> outcome_class (resolve_current_user L cfg now repo authorization) = ServerError)
   \<and> (AUTH_TYPE cfg = AUTH_TYPE cfg' \<and> SESSION_SECRET_KEY cfg = SESSION_SECRET_KEY cfg'
        \<and> SESSION_EXPIRE_MINUTES cfg = SESSION_EXPIRE_MINUTES cfg'
        \<longrightarrow> get_auth_provider cfg = get_auth_provider cfg')"
proof -
  have "get_auth_provider cfg \<noteq> Inr JWTProvider" if "AUTH_TYPE cfg = ''login_password''"
    using that
    by (auto simp: get_auth_provider_def LoginPasswordProvider_init_def split: option.splits)
  moreover have "get_auth_provider cfg = get_auth_provider cfg'"
    if "AUTH_TYPE cfg = AUTH_TYPE cfg'" and "SESSION_SECRET_KEY cfg = SESSION_SECRET_KEY cfg'"
      and "SESSION_EXPIRE_MINUTES cfg = SESSION_EXPIRE_MINUTES cfg'"
    using that
    by (simp add: get_auth_provider_def LoginPasswordProvider_init_def split: option.splits)
  moreover have "get_auth_provider cfg = Inl ValueError
            \<and> (\<exists>log. lifespan_startup cfg = Inr log)
            \<and> resolve_current_user L cfg now repo authorization = Inl (Uncaught ValueError)
            \<and> outcome_class (resolve_current_user L cfg now repo authorization) = ServerError"
    if "AUTH_TYPE cfg \<noteq> ''jwt''" and "AUTH_TYPE cfg \<noteq> ''login_password''"
    using that
    by (simp add: get_auth_provider_def lifespan_startup_def resolve_current_user_def
          outcome_class_def)
  moreover have "get_auth_provider cfg = Inr JWTProvider" if "AUTH_TYPE cfg = ''jwt''"
    using that by (simp add: get_auth_provider_def)
  moreover have "get_auth_provider cfg = LoginPasswordProvider_init cfg"
    if "AUTH_TYPE cfg = ''login_password''"
    using that by (simp add: get_auth_provider_def)
  ultimately show ?thesis by blast
qed

theorem get_auth_provider_selection_witness:
  "AUTH_TYPE sample_settings = ''jwt''
   \<and> get_auth_provider sample_settings = Inr JWTProvider
   \<and> AUTH_TYPE (sample_settings\<lparr>AUTH_TYPE := ''login_password'', SESSION_SECRET_KEY := Some ''k''\<rparr>)
        = ''login_password''
   \<and> get_auth_provider (sample_settings\<lparr>AUTH_TYPE := ''login_password'', SESSION_SECRET_KEY := Some ''k''\<rparr>)
        = Inr (LoginPasswordProvider ''k'' 3600)
   \<and> AUTH_TYPE (sample_settings\<lparr>AUTH_TYPE := ''none''\<rparr>) \<noteq> ''jwt''
   \<and> AUTH_TYPE (sample_settings\<lparr>AUTH_TYPE := ''none''\<rparr>) \<noteq> ''login_password''
   \<and> resolve_current_user sample_libs (sample_settings\<lparr>AUTH_TYPE := ''none''\<rparr>) 0 sample_db
        (Some ''Bearer good'') = Inl (Uncaught ValueError)"
proof -
  have a: "AUTH_TYPE sample_settings = ''jwt''" by (simp add: sample_settings_def)
  have b: "AUTH_TYPE (sample_settings\<lparr>AUTH_TYPE := ''login_password'', SESSION_SECRET_KEY := Some ''k''\<rparr>)
        = ''login_password''" by simp
  have i: "LoginPasswordProvider_init
             (sample_settings\<lparr>AUTH_TYPE := ''login_password'', SESSION_SECRET_KEY := Some ''k''\<rparr>)
        = Inr (LoginPasswordProvider ''k'' 3600)"
    by (simp add: LoginPasswordProvider_init_def sample_settings_def)
  have c: "AUTH_TYPE (sample_settings\<lparr>AUTH_TYPE := ''none''\<rparr>) \<noteq> ''jwt''
           \<and> AUTH_TYPE (sample_settings\<lparr>AUTH_TYPE := ''none''\<rparr>) \<noteq> ''login_password''" by simp
  from get_auth_provider_selection [of sample_settings] a
  have r1: "get_auth_provider sample_settings = Inr JWTProvider" by blast
  from get_auth_provider_selection
      [of "sample_settings\<lparr>AUTH_TYPE := ''login_password'', SESSION_SECRET_KEY := Some ''k''\<rparr>"] b i
  have r2: "get_auth_provider (sample_settings\<lparr>AUTH_TYPE := ''login_password'', SESSION_SECRET_KEY := Some ''k''\<rparr>)
        = Inr (LoginPasswordProvider ''k'' 3600)" by metis
  from get_auth_provider_selection
      [of "sample_settings\<lparr>AUTH_TYPE := ''none''\<rparr>" sample_libs 0 sample_db "Some ''Bearer good''"] c
  have r3: "resolve_current_user sample_libs (sample_settings\<lparr>AUTH_TYPE := ''none''\<rparr>) 0 sample_db
        (Some ''Bearer good'') = Inl (Uncaught ValueError)" by blast
  from a b c r1 r2 r3 show ?thesis by blast
qed

text \<open>
  C3 (the spec: with the session kind selected and no signing secret, the failure
  occurs at process startup, never per request). The constructor runs inside the
  selector, hence per request. At the sample settings with
  \<open>AUTH_TYPE = "login_password"\<close> and no \<open>SESSION_SECRET_KEY\<close>, startup completes and a
  request fails with the constructor's \<open>ValueError\<close>.
\<close>

theorem missing_session_secret_startup_counterexample:
  "AUTH_TYPE (sample_settings\<lparr>AUTH_TYPE := ''login_password''\<rparr>) = ''login_password''
   \<and> SESSION_SECRET_KEY (sample_settings\<lparr>AUTH_TYPE := ''login_password''\<rparr>) = None
   \<and> lifespan_startup (sample_settings\<lparr>AUTH_TYPE := ''login_password''\<rparr>)
        = Inr [''Starting FastAPI Boilerplate v1.0.0'', ''Database: postgresql'',
               ''Authentication: login_password'']
   \<and> resolve_current_user sample_libs (sample_settings\<lparr>AUTH_TYPE := ''login_password''\<rparr>) 0
        sample_db (Some ''Bearer abcDEF-_0:42'') = Inl (Uncaught ValueError)"
  by (simp add: lifespan_startup_def resolve_current_user_def get_auth_provider_def
        LoginPasswordProvider_init_def sample_settings_def)

text \<open>
  C3, amended: with the session kind selected and \<open>SESSION_SECRET_KEY\<close> missing or empty,
  the session provider's constructor raises \<open>ValueError\<close>. The constructor runs inside
  \<open>get_auth_provider\<close>, for each request that depends on the provider: startup completes,
  and every such request ends with that uncaught error. With a non-empty secret the
  constructor returns the provider, with \<open>max_age\<close> the configured minutes in seconds.
\<close>

theorem session_provider_requires_secret:
  assumes "AUTH_TYPE cfg = ''login_password''"
  shows "(SESSION_SECRET_KEY cfg = None \<or> SESSION_SECRET_KEY cfg = Some []
            \<longrightarrow> LoginPasswordProvider_init cfg = Inl ValueError
                \<and> get_auth_provider cfg = Inl ValueError
                \<and> (\<exists>log. lifespan_startup cfg = Inr log)
                \<and> resolve_current_user L cfg now repo authorization = Inl (Uncaught ValueError))
         \<and> (\<forall>k. SESSION_SECRET_KEY cfg = Some k \<and> k \<noteq> []
            \<longrightarrow> get_auth_provider cfg
                  = Inr (LoginPasswordProvider k (SESSION_EXPIRE_MINUTES cfg * 60)))"
  using assms
  by (auto simp: get_auth_provider_def LoginPasswordProvider_init_def lifespan_startup_def
        resolve_current_user_def)

theorem session_provider_requires_secret_witness:
  "AUTH_TYPE (sample_settings\<lparr>AUTH_TYPE := ''login_password'', SESSION_SECRET_KEY := Some []\<rparr>)
        = ''login_password''
   \<and> SESSION_SECRET_KEY (sample_settings\<lparr>AUTH_TYPE := ''login_password'', SESSION_SECRET_KEY := Some []\<rparr>)
        = Some []
   \<and> get_auth_provider (sample_settings\<lparr>AUTH_TYPE := ''login_password'', SESSION_SECRET_KEY := Some []\<rparr>)
        = Inl ValueError
   \<and> resolve_current_user sample_libs
        (sample_settings\<lparr>AUTH_TYPE := ''login_password'', SESSION_SECRET_KEY := Some []\<rparr>) 0
        sample_db None = Inl (Uncaught ValueError)"
proof -
  let ?cfg = "sample_settings\<lparr>AUTH_TYPE := ''login_password'', SESSION_SECRET_KEY := Some []\<rparr>"
  have a: "AUTH_TYPE ?cfg = ''login_password''" by simp
  have s: "SESSION_SECRET_KEY ?cfg = Some []" by simp
  from session_provider_requires_secret [OF a, of sample_libs 0 sample_db None] s
  have "get_auth_provider ?cfg = Inl ValueError
        \<and> resolve_current_user sample_libs ?cfg 0 sample_db None = Inl (Uncaught ValueError)"
    by blast
  with a s show ?thesis by blast
qed

text \<open>
  C4 (the spec: every 401-class rejection carries the hint \<open>WWW-Authenticate: Bearer\<close>,
  under both providers). The rejections raised by \<open>get_current_user\<close> itself and by the
  bearer provider carry it; those of the session provider do not. Property proved here,
  on the code: under the session provider, a token whose signature is bad or whose age
  exceeds \<open>max_age\<close> is rejected with status 401 and with no header at all.
\<close>

theorem session_rejection_without_bearer_hint:
  assumes "py_split a = [scheme, token]" and "py_lower scheme = ''bearer''"
    and "ts_unsign L key now token max_age = BadSignature
         \<or> ts_unsign L key now token max_age = SignatureExpired"
  shows "\<exists>f. get_current_user L cfg now repo (Some a) (LoginPasswordProvider key max_age) = Inl f
             \<and> response_status f = 401 \<and> response_headers f = []
             \<and> map_of (response_headers f) ''WWW-Authenticate'' = None"
proof -
  from assms(3) obtain f where
    v: "verify_token L cfg now (LoginPasswordProvider key max_age) token = Inl f"
    and f: "f = HTTPException 401 ''Invalid session'' [] \<or> f = HTTPException 401 ''Session has expired'' []"
    by (auto simp: session_verify_token_def)
  from get_current_user_rejected [OF assms(1,2) v]
  have "get_current_user L cfg now repo (Some a) (LoginPasswordProvider key max_age) = Inl f" .
  with f show ?thesis by auto
qed

theorem session_rejection_without_bearer_hint_witness:
  "py_split ''Bearer forged'' = [''Bearer'', ''forged'']
   \<and> py_lower ''Bearer'' = ''bearer''
   \<and> ts_unsign sample_libs ''k'' 0 ''forged'' 3600 = BadSignature
   \<and> get_current_user sample_libs sample_settings 0 sample_db (Some ''Bearer forged'')
        (LoginPasswordProvider ''k'' 3600) = Inl (HTTPException 401 ''Invalid session'' [])"
proof -
  have s: "py_split ''Bearer forged'' = [''Bearer'', ''forged'']" by code_simp
  have u: "ts_unsign sample_libs ''k'' 0 ''forged'' 3600 = BadSignature"
    by (simp add: sample_libs_def)
  have g: "get_current_user sample_libs sample_settings 0 sample_db (Some ''Bearer forged'')
        (LoginPasswordProvider ''k'' 3600) = Inl (HTTPException 401 ''Invalid session'' [])"
    using get_current_user_rejected [OF s sample_lower_Bearer, of sample_libs sample_settings 0
        "LoginPasswordProvider ''k'' 3600" "HTTPException 401 ''Invalid session'' []" sample_db]
    by (simp add: session_verify_token_def u)
  from session_rejection_without_bearer_hint [OF s sample_lower_Bearer disjI1 [OF u], of sample_settings sample_db]
  show ?thesis using s u g sample_lower_Bearer by simp
qed

text \<open>
  C9: \<open>verify_token\<close> never returns \<open>None\<close>, for either provider and every token: it
  returns a claims map or raises. Hence the \<open>None\<close> branch of each provider's
  \<open>get_current_user\<close> (the rejection ``Could not validate credentials'') is never taken,
  and \<open>payload.get("sub")\<close> in the resolution pipeline never faults on a \<open>None\<close> payload
  (the \<open>AttributeError\<close> never occurs).
\<close>

theorem verify_token_never_None:
  "verify_token L cfg now p token \<noteq> Inr None
   \<and> provider_get_current_user L cfg now p token
        \<noteq> Inl (HTTPException code ''Could not validate credentials'' hdrs)
   \<and> provider_get_current_user L cfg now p token = map_sum id the (verify_token L cfg now p token)
   \<and> get_current_user L cfg now repo authorization p \<noteq> Inl (Uncaught AttributeError)"
proof -
  have n: "verify_token L cfg now p token \<noteq> Inr None"
    by (rule verify_token_not_None)
  have c: "provider_get_current_user L cfg now p token = map_sum id the (verify_token L cfg now p token)"
  proof (cases p)
    case JWTProvider
    with jwt_verify_token_not_None [of L cfg now token] show ?thesis
      by (auto simp: jwt_get_current_user_def split: sum.splits option.splits)
  next
    case (LoginPasswordProvider key max_age)
    with session_verify_token_not_None [of L key max_age now token] show ?thesis
      by (auto simp: session_get_current_user_def split: sum.splits option.splits)
  qed
  have b: "provider_get_current_user L cfg now p token
        \<noteq> Inl (HTTPException code ''Could not validate credentials'' hdrs)"
  proof
    assume a: "provider_get_current_user L cfg now p token
        = Inl (HTTPException code ''Could not validate credentials'' hdrs)"
    with c have "verify_token L cfg now p token
        = Inl (HTTPException code ''Could not validate credentials'' hdrs)"
      by (cases "verify_token L cfg now p token") auto
    then show False
      by (cases p) (auto dest: jwt_verify_token_cases session_verify_token_cases)
  qed
  have g: "get_current_user L cfg now repo authorization p \<noteq> Inl (Uncaught AttributeError)"
    using get_current_user_failure [of L cfg now repo authorization p "Uncaught AttributeError"]
    by auto
  from n b c g show ?thesis by blast
qed

theorem verify_token_never_None_witness:
  "verify_token sample_libs sample_settings 0 JWTProvider ''garbage'' \<noteq> Inr None
   \<and> verify_token sample_libs sample_settings 0 JWTProvider ''garbage''
        = Inl (HTTPException 401 ''Invalid token'' bearer_hint)
   \<and> verify_token sample_libs sample_settings 0 (LoginPasswordProvider ''k'' 3600) ''nocolon''
        = Inl (HTTPException 401 ''Invalid session'' [])
   \<and> get_current_user sample_libs sample_settings 0 sample_db (Some ''Bearer garbage'') JWTProvider
        \<noteq> Inl (Uncaught AttributeError)"
  using verify_token_never_None [of sample_libs sample_settings 0 JWTProvider "''garbage''" 0 "[]"
      sample_db "Some ''Bearer garbage''"]
  by (simp add: jwt_verify_token_def session_verify_token_def sample_libs_def py_split1_def)


lemma sample_session_id_urlsafe: "list_all urlsafe_char ''abcDEF-_0''"
  by code_simp


text \<open>
  C6: session separator stability. A session token issued for subject \<open>"7"\<close> (for any
  string subject) with a URL-safe session identifier verifies to exactly
  \<open>{"sub": subject, "session_id": identifier}\<close>: the unsigned text is cut at its first
  \<open>:\<close> only, the identifier contains none, so the identifier comes back as generated and
  the subject whole, even a subject that itself contains \<open>:\<close>. The signer enters through
  its contract for the issued token (unsigning what it signed gives the text back).
\<close>

theorem session_separator_stability:
  assumes "list_all urlsafe_char session_id"
    and "map_of data ''sub'' = Some (JStr s)"
    and "ts_unsign L key now' (ts_sign L key now (session_id @ '':'' @ s)) max_age
           = Unsigned (session_id @ '':'' @ s)"
  shows "session_verify_token L key max_age now'
           (session_create_access_token L key now session_id data expires_delta)
           = Inr (Some [(''sub'', JStr s), (''session_id'', JStr session_id)])
         \<and> py_split1 (CHR '':'') (session_id @ '':'' @ s) = [session_id, s]"
proof -
  have tok: "session_create_access_token L key now session_id data expires_delta
               = ts_sign L key now (session_id @ '':'' @ s)"
    using assms(2) by (simp add: session_create_access_token_def dict_get_default_def)
  have cut: "py_split1 (CHR '':'') (session_id @ '':'' @ s) = [session_id, s]"
    using py_split1_first [OF urlsafe_no_colon [OF assms(1)], of s] by simp
  with assms(3) tok show ?thesis
    by (simp add: session_verify_token_def)
qed

theorem session_separator_stability_witness:
  "list_all urlsafe_char ''abcDEF-_0''
   \<and> map_of [(''sub'', JStr ''7'')] ''sub'' = Some (JStr ''7'')
   \<and> ts_unsign sample_libs ''k'' 1000000 (ts_sign sample_libs ''k'' 0 (''abcDEF-_0'' @ '':'' @ ''7'')) 3600
        = Unsigned (''abcDEF-_0'' @ '':'' @ ''7'')
   \<and> session_verify_token sample_libs ''k'' 3600 1000000
        (session_create_access_token sample_libs ''k'' 0 ''abcDEF-_0'' [(''sub'', JStr ''7'')] None)
        = Inr (Some [(''sub'', JStr ''7''), (''session_id'', JStr ''abcDEF-_0'')])"
proof -
  have m: "map_of [(''sub'', JStr ''7'')] ''sub'' = Some (JStr ''7'')" by simp
  have u: "ts_unsign sample_libs ''k'' 1000000 (ts_sign sample_libs ''k'' 0 (''abcDEF-_0'' @ '':'' @ ''7'')) 3600
        = Unsigned (''abcDEF-_0'' @ '':'' @ ''7'')"
    by (simp add: sample_libs_def)
  from session_separator_stability [OF sample_session_id_urlsafe m u, of None]
  show ?thesis using sample_session_id_urlsafe m u by blast
qed







end
